theory Spec2Isabelle
  imports Main "HOL-Library.Word" "HOL-Library.Signed_Division" "HOL-Library.Monad_Syntax"
begin

section \<open>The IR substrate\<close>

text \<open>
  The pass works on MLIR: operations own regions, regions own blocks, blocks own
  operations, and operands are SSA values that name either a result of an operation or a
  block argument. A value is followed to its defining operation by
  \<^verbatim>\<open>Value::getDefiningOp\<close>, which is null for a block argument. Here a value
  that is an operation result carries the head of its defining operation (identity, name,
  attributes, parent block, result types and operands), so that following a value to its
  definition is a projection. Identity (\<^verbatim>\<open>Operation *\<close>, \<^verbatim>\<open>Block *\<close>,
  \<^verbatim>\<open>BlockArgument\<close>) is a number.
\<close>

datatype predicate =
  pred_eq | pred_ne | pred_slt | pred_sle | pred_sgt | pred_sge
  | pred_ult | pred_ule | pred_ugt | pred_uge

datatype ty =
  IntegerType nat | IndexType | FloatType | QRefType | QVecType "nat option"
  | MemRefType "nat list" ty | OtherType string

datatype attr =
  UnitAttr | BoolAttr bool | IntegerAttr int | DenseI32ArrayAttr "int list"
  | PredicateAttr predicate | SymbolRefAttr string

datatype opname =
  cc_loop | cc_if | cc_scope | cc_condition | cc_continue
  | cc_create_lambda | cc_instantiate_callable
  | arith_addi | arith_subi | arith_muli | arith_divsi | arith_cmpi | arith_select
  | arith_constant | arith_negf
  | memref_alloca | memref_load | memref_store
  | func_call | func_return | scf_for
  | quake_apply | quake_concat
  | quake_gate string
  | other_op string

record opinfo =
  op_id :: nat
  op_name :: opname
  op_attrs :: "(string \<times> attr) list"
  op_block :: nat
  op_result_types :: "ty list"

datatype val = OpResult ophead nat | BlockArg nat ty
and ophead = OpHead (info: opinfo) (getOperands: "val list")

datatype operation = Operation (head_of: ophead) (getRegions: "block list list")
and block = Block (block_id: nat) (getArguments: "(nat \<times> ty) list") (block_ops: "operation list")

type_synonym region = "block list"

text \<open>\<^verbatim>\<open>Value::getDefiningOp\<close>: null (\<open>None\<close>) for a block argument.\<close>

fun getDefiningOp :: "val \<Rightarrow> ophead option" where
  "getDefiningOp (OpResult h i) = Some h"
| "getDefiningOp (BlockArg a t) = None"

text \<open>Equality of two \<^verbatim>\<open>Value\<close>s is identity of what they name.\<close>

fun same_value :: "val \<Rightarrow> val \<Rightarrow> bool" where
  "same_value (OpResult h i) (OpResult k j) = (op_id (info h) = op_id (info k) \<and> i = j)"
| "same_value (BlockArg a t) (BlockArg b u) = (a = b)"
| "same_value _ _ = False"

definition same_op :: "ophead \<Rightarrow> ophead \<Rightarrow> bool" where
  "same_op h k = (op_id (info h) = op_id (info k))"

definition isa :: "opname \<Rightarrow> ophead \<Rightarrow> bool" where
  "isa n h = (op_name (info h) = n)"

definition getAttr :: "ophead \<Rightarrow> string \<Rightarrow> attr option" where
  "getAttr h k = map_of (op_attrs (info h)) k"

definition hasAttr :: "ophead \<Rightarrow> string \<Rightarrow> bool" where
  "hasAttr h k = (getAttr h k \<noteq> None)"

section \<open>Builder\<close>

text \<open>
  \<^verbatim>\<open>OpBuilder\<close>: every created operation is a new object. The builder hands out
  identities from a counter and records the block it inserts into.
\<close>

record builder =
  next_id :: nat
  ins_block :: nat
  inserted :: "operation list"

text \<open>
  \<open>createAt\<close> makes an operation for a given block and leaves its placing to the caller;
  \<open>create\<close> is \<^verbatim>\<open>OpBuilder::create\<close> at the insertion point of the builder: the new
  operation is appended to the operations inserted so far.
\<close>

definition createAt :: "nat \<Rightarrow> opname \<Rightarrow> (string \<times> attr) list \<Rightarrow> ty list \<Rightarrow> val list \<Rightarrow> builder
    \<Rightarrow> ophead \<times> builder" where
  "createAt blk n attrs tys operands b =
     (OpHead \<lparr>op_id = next_id b, op_name = n, op_attrs = attrs, op_block = blk,
              op_result_types = tys\<rparr> operands,
      b\<lparr>next_id := Suc (next_id b)\<rparr>)"

definition create :: "opname \<Rightarrow> (string \<times> attr) list \<Rightarrow> ty list \<Rightarrow> val list \<Rightarrow> builder
    \<Rightarrow> ophead \<times> builder" where
  "create n attrs tys operands b =
     (let (h, b) = createAt (ins_block b) n attrs tys operands b
      in (h, b\<lparr>inserted := inserted b @ [Operation h []]\<rparr>))"

section \<open>Kernels, modules and apply sites\<close>

record funcOp =
  sym_name :: string
  fn_inputs :: "ty list"
  fn_results :: "ty list"
  fn_body :: region
  is_private :: bool

type_synonym moduleOp = "funcOp list"

definition lookupSymbol :: "moduleOp \<Rightarrow> string \<Rightarrow> funcOp option" where
  "lookupSymbol m n = find (\<lambda>f. sym_name f = n) m"

text \<open>
  \<^verbatim>\<open>quake::ApplyOp\<close> as the pass reads it, through \<^verbatim>\<open>getCallee\<close>,
  \<^verbatim>\<open>getIsAdj\<close>, \<^verbatim>\<open>getControls\<close>, \<^verbatim>\<open>getArgs\<close> and
  \<^verbatim>\<open>getResultTypes\<close>.
\<close>

record applyOp =
  getCallee :: string
  getIsAdj :: bool
  getControls :: "val list"
  getArgs :: "val list"
  getResultTypes :: "ty list"

subsection \<open>ApplyOpAnalysis\<close>

record ApplyVariants =
  needsControlVariant :: bool
  needsAdjointVariant :: bool
  needsAdjointControlVariant :: bool

text \<open>
  The map is keyed by the \<^verbatim>\<open>Operation *\<close> of the callee found by
  \<^verbatim>\<open>lookupSymbol\<close>; a kernel is identified by its symbol name, and \<open>None\<close> is the
  null pointer of a failed lookup.
\<close>

type_synonym ApplyOpAnalysisInfo = "string option \<rightharpoonup> ApplyVariants"

text \<open>\<^verbatim>\<open>DenseMap::insert\<close> leaves the map as it is when the key is already present.\<close>

definition DenseMap_insert :: "('k \<rightharpoonup> 'v) \<Rightarrow> 'k \<Rightarrow> 'v \<Rightarrow> ('k \<rightharpoonup> 'v)" where
  "DenseMap_insert m k v = (case m k of None \<Rightarrow> m(k \<mapsto> v) | Some _ \<Rightarrow> m)"

text \<open>
  The body of the walk callback in \<^verbatim>\<open>performAnalysis\<close> (lines 51-68).
  \<open>uninit\<close> is the value of the local \<^verbatim>\<open>ApplyVariants variant;\<close>, which has no
  initialiser; \<open>applyToVariant\<close> is the method of the apply operation of that name,
  declared with the operation outside these sources.
\<close>

definition analyseApply :: "ApplyVariants \<Rightarrow> (applyOp \<Rightarrow> bool) \<Rightarrow> moduleOp
    \<Rightarrow> applyOp \<Rightarrow> ApplyOpAnalysisInfo \<Rightarrow> ApplyOpAnalysisInfo" where
  "analyseApply uninit applyToVariant m appOp infoMap =
     (if \<not> applyToVariant appOp then infoMap
      else
        let fnOp = map_option sym_name (lookupSymbol m (getCallee appOp));
            variant = (case infoMap fnOp of Some v \<Rightarrow> v | None \<Rightarrow> uninit);
            variant =
              (if getIsAdj appOp \<and> getControls appOp \<noteq> []
                 then variant\<lparr>needsAdjointControlVariant := True\<rparr>
               else if getIsAdj appOp
                 then variant\<lparr>needsAdjointVariant := True\<rparr>
               else if getControls appOp \<noteq> []
                 then variant\<lparr>needsControlVariant := True\<rparr>
               else variant)
        in DenseMap_insert infoMap fnOp variant)"

text \<open>The walk visits the apply operations of the module in order.\<close>

definition performAnalysis :: "ApplyVariants \<Rightarrow> (applyOp \<Rightarrow> bool) \<Rightarrow> moduleOp
    \<Rightarrow> applyOp list \<Rightarrow> ApplyOpAnalysisInfo" where
  "performAnalysis uninit applyToVariant m sites =
     fold (analyseApply uninit applyToVariant m) sites Map.empty"

subsection \<open>Variant names and the apply pattern\<close>

definition getAdjCtrlVariantFunctionName :: "string \<Rightarrow> string" where
  "getAdjCtrlVariantFunctionName n = n @ ''.adj.ctrl''"

definition getAdjVariantFunctionName :: "string \<Rightarrow> string" where
  "getAdjVariantFunctionName n = n @ ''.adj''"

definition getCtrlVariantFunctionName :: "string \<Rightarrow> string" where
  "getCtrlVariantFunctionName n = n @ ''.ctrl''"

definition getVariantFunctionName :: "applyOp \<Rightarrow> string \<Rightarrow> string" where
  "getVariantFunctionName appOp calleeName =
     (if getIsAdj appOp \<and> getControls appOp \<noteq> [] then getAdjCtrlVariantFunctionName calleeName
      else if getIsAdj appOp then getAdjVariantFunctionName calleeName
      else if getControls appOp \<noteq> [] then getCtrlVariantFunctionName calleeName
      else calleeName)"

text \<open>
  \<^verbatim>\<open>ApplyOpPattern::matchAndRewrite\<close> (lines 299-315). The result is the list of
  rewriter, whose inserted operations stand where the apply operation stood: the
  concatenation of the controls, when there are any, and the call.
\<close>

definition matchAndRewrite :: "applyOp \<Rightarrow> builder \<Rightarrow> builder" where
  "matchAndRewrite appOp rewriter =
     (let calleeName = getVariantFunctionName appOp (getCallee appOp);
          consTy = QVecType None;
          (newArgs, rewriter) =
            (if getControls appOp \<noteq> []
             then (let (consOp, rewriter) =
                         create quake_concat [] [consTy] (getControls appOp) rewriter
                   in ([OpResult consOp 0], rewriter))
             else ([], rewriter));
          newArgs = newArgs @ getArgs appOp;
          (call, rewriter) =
            create func_call [(''callee'', SymbolRefAttr calleeName)] (getResultTypes appOp)
              newArgs rewriter
      in rewriter)"

section \<open>Reading operations\<close>

text \<open>
  The source reads operands, block arguments and the last element of a list without a
  check. Where such a read has nothing to read, or follows a null pointer, the behaviour of
  the source is undefined; the model returns \<open>None\<close> there, and every \<open>None\<close> below is
  such a point.
\<close>

definition list_back :: "'a list \<Rightarrow> 'a option" where
  "list_back xs = (if xs = [] then None else Some (last xs))"

definition list_front :: "'a list \<Rightarrow> 'a option" where
  "list_front xs = (case xs of [] \<Rightarrow> None | x # _ \<Rightarrow> Some x)"

definition getOperand :: "ophead \<Rightarrow> nat \<Rightarrow> val option" where
  "getOperand h i = (if i < length (getOperands h) then Some (getOperands h ! i) else None)"

definition getArgument :: "block \<Rightarrow> nat \<Rightarrow> val option" where
  "getArgument b i =
     (if i < length (getArguments b)
      then Some (BlockArg (fst (getArguments b ! i)) (snd (getArguments b ! i))) else None)"

definition getResults :: "ophead \<Rightarrow> val list" where
  "getResults h = map (OpResult h) [0..<length (op_result_types (info h))]"


text \<open>\<^verbatim>\<open>Block::back\<close> and \<^verbatim>\<open>Block::getTerminator\<close>: the last operation.\<close>

definition block_back :: "block \<Rightarrow> ophead option" where
  "block_back b = map_option head_of (list_back (block_ops b))"

definition getTerminator :: "block \<Rightarrow> operation option" where
  "getTerminator b = list_back (block_ops b)"

subsection \<open>cc.loop\<close>

text \<open>
  A loop has three regions (while, body, step), its operands are the initial values of the
  loop-carried values, and the step region is empty for a loop without a step.
\<close>

record loopOp =
  loop_head :: ophead
  getWhileRegion :: region
  getBodyRegion :: region
  getStepRegion :: region

definition dyn_cast_LoopOp :: "operation \<Rightarrow> loopOp option" where
  "dyn_cast_LoopOp op =
     (if isa cc_loop (head_of op)
      then (case getRegions op of
              [w, b, s] \<Rightarrow> Some \<lparr>loop_head = head_of op, getWhileRegion = w,
                                 getBodyRegion = b, getStepRegion = s\<rparr>
            | _ \<Rightarrow> None)
      else None)"


definition getInitArgs :: "loopOp \<Rightarrow> val list" where
  "getInitArgs l = getOperands (loop_head l)"

definition loop_results :: "loopOp \<Rightarrow> val list" where
  "loop_results l = getResults (loop_head l)"

definition isPostConditional :: "loopOp \<Rightarrow> bool" where
  "isPostConditional l = (getAttr (loop_head l) ''post_cond'' = Some (BoolAttr True))"

definition hasStep :: "loopOp \<Rightarrow> bool" where
  "hasStep l = (getStepRegion l \<noteq> [])"

text \<open>cc.condition: operand 0 is the condition, the others are the values passed on.\<close>

definition getCondition :: "ophead \<Rightarrow> val option" where
  "getCondition c = getOperand c 0"

definition condition_results :: "ophead \<Rightarrow> val list" where
  "condition_results c = drop 1 (getOperands c)"

text \<open>memref.load reads operand 0; memref.store writes operand 0 to operand 1.\<close>

definition load_getMemRef :: "ophead \<Rightarrow> val option" where
  "load_getMemRef l = getOperand l 0"

definition store_getValue :: "ophead \<Rightarrow> val option" where
  "store_getValue s = getOperand s 0"

definition store_getMemRef :: "ophead \<Rightarrow> val option" where
  "store_getMemRef s = getOperand s 1"



definition contains_value :: "val list \<Rightarrow> val \<Rightarrow> bool" where
  "contains_value vs v = list_ex (same_value v) vs"

definition contains_op :: "ophead list \<Rightarrow> ophead option \<Rightarrow> bool" where
  "contains_op hs p = (case p of None \<Rightarrow> False | Some h \<Rightarrow> list_ex (same_op h) hs)"

section \<open>The counted-loop recognizer\<close>

text \<open>\<^verbatim>\<open>hasMonotonicPHIControl\<close> (lines 121-147): the value-domain matcher.\<close>

definition hasMonotonicPHIControl :: "loopOp \<Rightarrow> bool option" where
  "hasMonotonicPHIControl loop =
     (if getInitArgs loop = [] \<or> loop_results loop = [] then Some False
      else do {
        whileBlock \<leftarrow> list_back (getWhileRegion loop);
        condition \<leftarrow> block_back whileBlock;
        if \<not> isa cc_condition condition then Some False
        else do {
          warg \<leftarrow> getArgument whileBlock 0;
          cres \<leftarrow> list_front (condition_results condition);
          if \<not> same_value warg cres then Some False
          else do {
            cond \<leftarrow> getCondition condition;
            cmpOp \<leftarrow> getDefiningOp cond;
            if \<not> contains_value (getOperands cmpOp) warg then Some False
            else do {
              bodyBlock \<leftarrow> list_back (getBodyRegion loop);
              bodyTermOp \<leftarrow> block_back bodyBlock;
              if \<not> isa cc_continue bodyTermOp then Some False
              else do {
                barg \<leftarrow> getArgument bodyBlock 0;
                bopnd \<leftarrow> getOperand bodyTermOp 0;
                if \<not> same_value barg bopnd then Some False
                else do {
                  stepBlock \<leftarrow> list_back (getStepRegion loop);
                  backedgeOp \<leftarrow> block_back stepBlock;
                  if \<not> isa cc_continue backedgeOp then Some False
                  else do {
                    bumped \<leftarrow> getOperand backedgeOp 0;
                    mutateOp \<leftarrow> getDefiningOp bumped;
                    if \<not> (isa arith_addi mutateOp \<or> isa arith_subi mutateOp) then Some False
                    else do {
                      sarg \<leftarrow> getArgument stepBlock 0;
                      Some (contains_value (getOperands mutateOp) sarg)
                    }
                  }
                }
              }
            }
          }
        }
      })"

text \<open>
  \<^verbatim>\<open>populateComparisonTemps\<close> (lines 152-176). The work list is a stack; it starts
  with the comparison, so the loop body runs at least once, as the
  \<^verbatim>\<open>do ... while\<close> of the source does.
\<close>

definition isScalarIntegerAlloca :: "ophead \<Rightarrow> bool" where
  "isScalarIntegerAlloca h =
     (isa memref_alloca h \<and>
      (case op_result_types (info h) of
         MemRefType shape (IntegerType w) # _ \<Rightarrow> shape = []
       | _ \<Rightarrow> False))"

definition defsInBlock :: "nat \<Rightarrow> val list \<Rightarrow> ophead list" where
  "defsInBlock wb vs =
     concat (map (\<lambda>v. case getDefiningOp v of
                          Some d \<Rightarrow> if op_block (info d) = wb then [d] else []
                        | None \<Rightarrow> []) vs)"

function comparisonTempsLoop :: "nat \<Rightarrow> ophead list \<Rightarrow> ophead list \<Rightarrow> ophead list option" where
  "comparisonTempsLoop wb results worklist =
     (if worklist = [] then Some results
      else
        let op = last worklist; worklist = butlast worklist in
        if isa memref_load op then
          (case load_getMemRef op of
             None \<Rightarrow> None
           | Some m \<Rightarrow>
               (case getDefiningOp m of
                  Some defOp \<Rightarrow>
                    if isScalarIntegerAlloca defOp
                    then comparisonTempsLoop wb (results @ [defOp]) worklist
                    else comparisonTempsLoop wb results worklist
                | None \<Rightarrow> comparisonTempsLoop wb results worklist))
        else comparisonTempsLoop wb results (worklist @ defsInBlock wb (getOperands op)))"
  by pat_completeness auto
termination
proof -
  have drop_last: "sum_list (map size (butlast wl)) + size (last wl) = sum_list (map size wl)"
    if "wl \<noteq> []" for wl :: "ophead list"
    using that by (induction wl rule: rev_induct) simp_all
  have pos: "0 < size h" for h :: ophead
    by (cases h) simp
  have defs_small: "sum_list (map size (defsInBlock wb vs)) \<le> size_list size vs"
    for wb and vs :: "val list"
  proof (induction vs)
    case Nil
    then show ?case by (simp add: defsInBlock_def)
  next
    case (Cons v vs)
    then show ?case by (cases v) (auto simp: defsInBlock_def)
  qed
  have operands_small: "sum_list (map size (defsInBlock wb (getOperands h))) < size h"
    for wb h
    using defs_small [of wb "getOperands h"] by (cases h) simp
  show ?thesis
  proof (relation "measure (\<lambda>(wb, results, worklist). sum_list (map size worklist))",
      goal_cases)
    case 1
    show ?case by simp
  next
    case (2 wb results worklist)
    then show ?case
      using drop_last [of worklist] pos [of "last worklist"]
        operands_small [of wb "last worklist"] by simp
  next
    case (3 wb results worklist)
    then show ?case
      using drop_last [of worklist] pos [of "last worklist"]
        operands_small [of wb "last worklist"] by simp
  next
    case (4 wb results worklist)
    then show ?case
      using drop_last [of worklist] pos [of "last worklist"]
        operands_small [of wb "last worklist"] by simp
  next
    case (5 wb results worklist)
    then show ?case
      using drop_last [of worklist] pos [of "last worklist"]
        operands_small [of wb "last worklist"] by simp
  qed
qed

definition populateComparisonTemps :: "ophead \<Rightarrow> block \<Rightarrow> ophead list option" where
  "populateComparisonTemps cmpOp whileBlock =
     comparisonTempsLoop (block_id whileBlock) [] [cmpOp]"

text \<open>
  \<^verbatim>\<open>hasMonotonicLCV\<close> (lines 198-236): the memory-domain matcher. The counter of the
  source is incremented once for every operand of the add or subtract that is a load of
  the stored-to cell; \<open>countLoads\<close> is the innermost loop (lines 224-229), where
  \<^verbatim>\<open>dyn_cast\<close> is applied to the defining operation of each operand without a null
  check.
\<close>

definition same_ptr :: "ophead option \<Rightarrow> ophead option \<Rightarrow> bool" where
  "same_ptr p q =
     (case (p, q) of
        (None, None) \<Rightarrow> True
      | (Some h, Some k) \<Rightarrow> same_op h k
      | _ \<Rightarrow> False)"

fun countLoads :: "ophead option \<Rightarrow> val list \<Rightarrow> nat option" where
  "countLoads cell [] = Some 0"
| "countLoads cell (defOpnd # rest) =
     do {
       d \<leftarrow> getDefiningOp defOpnd;
       inc \<leftarrow> (if isa memref_load d
               then do {
                 m \<leftarrow> load_getMemRef d;
                 Some (if same_ptr cell (getDefiningOp m) then 1 else 0)
               }
               else Some 0);
       n \<leftarrow> countLoads cell rest;
       Some (inc + n)
     }"

definition storeMatchCount :: "ophead list \<Rightarrow> ophead \<Rightarrow> nat option" where
  "storeMatchCount comparisonTemps op =
     (if \<not> isa memref_store op then Some 0
      else do {
        m \<leftarrow> store_getMemRef op;
        if \<not> contains_op comparisonTemps (getDefiningOp m) then Some 0
        else do {
          v \<leftarrow> store_getValue op;
          (case getDefiningOp v of
             None \<Rightarrow> Some 0
           | Some d \<Rightarrow>
               if isa arith_addi d \<or> isa arith_subi d
               then countLoads (getDefiningOp m) (getOperands d)
               else Some 0)
        }
      })"

fun matchCount :: "ophead list \<Rightarrow> ophead list \<Rightarrow> nat option" where
  "matchCount comparisonTemps [] = Some 0"
| "matchCount comparisonTemps (op # ops) =
     do {
       c \<leftarrow> storeMatchCount comparisonTemps op;
       n \<leftarrow> matchCount comparisonTemps ops;
       Some (c + n)
     }"

definition hasMonotonicLCV :: "loopOp \<Rightarrow> bool option" where
  "hasMonotonicLCV loop =
     (if getInitArgs loop \<noteq> [] \<and> loop_results loop \<noteq> [] then Some False
      else do {
        whileBlock \<leftarrow> list_back (getWhileRegion loop);
        condition \<leftarrow> block_back whileBlock;
        if \<not> isa cc_condition condition then Some False
        else do {
          cond \<leftarrow> getCondition condition;
          (case getDefiningOp cond of
             None \<Rightarrow> Some False
           | Some cmpOp \<Rightarrow>
               if \<not> isa arith_cmpi cmpOp then Some False
               else do {
                 comparisonTemps \<leftarrow> populateComparisonTemps cmpOp whileBlock;
                 stepBlock \<leftarrow> list_back (getStepRegion loop);
                 count \<leftarrow> matchCount comparisonTemps (rev (map head_of (block_ops stepBlock)));
                 Some (count = 1)
               })
        }
      })"

text \<open>\<^verbatim>\<open>hasMonotonicControlInduction\<close> (lines 242-244); \<^verbatim>\<open>||\<close> evaluates its right
  operand only when the left one is false.\<close>

definition hasMonotonicControlInduction :: "loopOp \<Rightarrow> bool option" where
  "hasMonotonicControlInduction loop =
     do {
       lcv \<leftarrow> hasMonotonicLCV loop;
       if lcv then Some True else hasMonotonicPHIControl loop
     }"

text \<open>\<^verbatim>\<open>isaCountedLoop\<close> (lines 252-266).\<close>

definition isaCountedLoop :: "operation \<Rightarrow> bool option" where
  "isaCountedLoop op =
     (case dyn_cast_LoopOp op of
        None \<Rightarrow> Some False
      | Some loopOp \<Rightarrow>
          if isPostConditional loopOp \<or> \<not> hasStep loopOp then Some False
          else
            let reg = getBodyRegion loopOp in
            if reg = [] then Some False
            else if length reg \<noteq> 1 then Some False
            else do {
              b \<leftarrow> list_front reg;
              term \<leftarrow> getTerminator b;
              if \<not> isa cc_continue (head_of term) then Some False
              else hasMonotonicControlInduction loopOp
            })"

section \<open>The structured-control-flow classifier\<close>

text \<open>
  \<^verbatim>\<open>regionHasUnstructuredControlFlow\<close> (lines 274-291). \<open>opsHaveUnstructured\<close> is the
  loop over the operations of the single block and \<open>regionsHaveUnstructured\<close> the inner
  loop over the regions of one operation; both leave with \<open>True\<close> at the first hit.
\<close>

fun regionHasUnstructuredControlFlow :: "region \<Rightarrow> bool option"
  and opsHaveUnstructured :: "operation list \<Rightarrow> bool option"
  and regionsHaveUnstructured :: "region list \<Rightarrow> bool option" where
  "regionHasUnstructuredControlFlow [] = Some False"
| "regionHasUnstructuredControlFlow [Block bid args ops] = opsHaveUnstructured ops"
| "regionHasUnstructuredControlFlow (b # c # bs) = Some True"
| "opsHaveUnstructured [] = Some False"
| "opsHaveUnstructured (Operation h rs # ops) =
     (if length rs = 0 then opsHaveUnstructured ops
      else do {
        unknown \<leftarrow> (if isa cc_if h then Some False
                   else do {
                     counted \<leftarrow> isaCountedLoop (Operation h rs);
                     Some (\<not> counted \<and> length rs > 1)
                   });
        if unknown then Some True
        else do {
          nested \<leftarrow> regionsHaveUnstructured rs;
          if nested then Some True else opsHaveUnstructured ops
        }
      })"
| "regionsHaveUnstructured [] = Some False"
| "regionsHaveUnstructured (r # rs) =
     do {
       u \<leftarrow> regionHasUnstructuredControlFlow r;
       if u then Some True else regionsHaveUnstructured rs
     }"

section \<open>Two concrete loops\<close>

text \<open>
  \<open>for (i = 0; i < 10; i += 1)\<close> in the value domain, the shape drawn above
  \<^verbatim>\<open>hasMonotonicPHIControl\<close> in the source: the three constants are defined in block 0
  in front of the loop, and each region has one block with one argument.
\<close>

definition mk_op :: "nat \<Rightarrow> opname \<Rightarrow> (string \<times> attr) list \<Rightarrow> nat \<Rightarrow> ty list \<Rightarrow> val list \<Rightarrow> ophead" where
  "mk_op i n attrs blk tys operands =
     OpHead \<lparr>op_id = i, op_name = n, op_attrs = attrs, op_block = blk, op_result_types = tys\<rparr>
       operands"

definition i64 :: ty where
  "i64 = IntegerType 64"

definition const_op :: "nat \<Rightarrow> nat \<Rightarrow> int \<Rightarrow> ophead" where
  "const_op i blk n = mk_op i arith_constant [(''value'', IntegerAttr n)] blk [i64] []"

definition phi_while :: block where
  "phi_while =
     (let cmp = mk_op 5 arith_cmpi [(''predicate'', PredicateAttr pred_slt)] 10 [IntegerType 1]
                  [BlockArg 100 i64, OpResult (const_op 2 0 10) 0]
      in Block 10 [(100, i64)]
           [Operation cmp [],
            Operation (mk_op 6 cc_condition [] 10 [] [OpResult cmp 0, BlockArg 100 i64]) []])"

definition phi_body :: block where
  "phi_body =
     Block 11 [(101, i64)]
       [Operation (mk_op 7 cc_continue [] 11 [] [BlockArg 101 i64]) []]"

definition phi_step :: block where
  "phi_step =
     (let add = mk_op 8 arith_addi [] 12 [i64] [BlockArg 102 i64, OpResult (const_op 3 0 1) 0]
      in Block 12 [(102, i64)]
           [Operation add [],
            Operation (mk_op 9 cc_continue [] 12 [] [OpResult add 0]) []])"

definition phi_loop :: operation where
  "phi_loop =
     Operation (mk_op 4 cc_loop [(''post_cond'', BoolAttr False)] 0 [i64]
                  [OpResult (const_op 1 0 0) 0])
       [[phi_while], [phi_body], [phi_step]]"

text \<open>
  The same loop in the memory domain, the shape drawn above \<^verbatim>\<open>hasMonotonicLCV\<close>:
  the induction variable is the scalar cell allocated by operation 1.
\<close>

definition ivar_cell :: ophead where
  "ivar_cell = mk_op 1 memref_alloca [] 0 [MemRefType [] i64] []"

definition load_cell :: "nat \<Rightarrow> nat \<Rightarrow> ophead" where
  "load_cell i blk = mk_op i memref_load [] blk [i64] [OpResult ivar_cell 0]"

definition lcv_while :: block where
  "lcv_while =
     (let ld = load_cell 5 10;
          cmp = mk_op 6 arith_cmpi [(''predicate'', PredicateAttr pred_slt)] 10 [IntegerType 1]
                  [OpResult ld 0, OpResult (const_op 2 0 10) 0]
      in Block 10 []
           [Operation ld [], Operation cmp [],
            Operation (mk_op 7 cc_condition [] 10 [] [OpResult cmp 0]) []])"

definition lcv_body :: block where
  "lcv_body = Block 11 [] [Operation (mk_op 8 cc_continue [] 11 [] []) []]"

definition lcv_step_with :: "val \<Rightarrow> block" where
  "lcv_step_with rhs =
     (let ld = load_cell 9 12;
          add = mk_op 10 arith_addi [] 12 [i64] [OpResult ld 0, rhs]
      in Block 12 []
           [Operation ld [], Operation add [],
            Operation (mk_op 11 memref_store [] 12 [] [OpResult add 0, OpResult ivar_cell 0]) [],
            Operation (mk_op 12 cc_continue [] 12 [] []) []])"

definition lcv_loop_with :: "val \<Rightarrow> operation" where
  "lcv_loop_with rhs =
     Operation (mk_op 4 cc_loop [(''post_cond'', BoolAttr False)] 0 [] [])
       [[lcv_while], [lcv_body], [lcv_step_with rhs]]"

definition lcv_loop :: operation where
  "lcv_loop = lcv_loop_with (OpResult (const_op 3 0 1) 0)"

text \<open>\<open>for (i = 0; i < 10; i += i)\<close>: both operands of the add are loads of the cell.\<close>

definition lcv_loop_doubling :: operation where
  "lcv_loop_doubling = lcv_loop_with (OpResult (load_cell 13 12) 0)"

definition phi_loopOp :: loopOp where
  "phi_loopOp =
     \<lparr>loop_head = head_of phi_loop, getWhileRegion = [phi_while], getBodyRegion = [phi_body],
        getStepRegion = [phi_step]\<rparr>"

definition lcv_loopOp_with :: "val \<Rightarrow> loopOp" where
  "lcv_loopOp_with rhs =
     \<lparr>loop_head = head_of lcv_loop, getWhileRegion = [lcv_while], getBodyRegion = [lcv_body],
        getStepRegion = [lcv_step_with rhs]\<rparr>"

section \<open>The memory-domain rule as the specification words it\<close>

text \<open>
  The specification's reading of the memory-domain matcher: a store of the step block
  matches when its target is one of the candidate cells and the stored value is an integer
  add or subtract that has a load of that same cell among its operands; the loop is
  accepted when exactly one store matches.
\<close>

definition isLoadOf :: "ophead option \<Rightarrow> val \<Rightarrow> bool" where
  "isLoadOf cell v =
     (case getDefiningOp v of
        None \<Rightarrow> False
      | Some d \<Rightarrow>
          isa memref_load d \<and>
          (case load_getMemRef d of
             None \<Rightarrow> False
           | Some m \<Rightarrow> same_ptr cell (getDefiningOp m)))"

definition storeMatches :: "ophead list \<Rightarrow> ophead \<Rightarrow> bool" where
  "storeMatches candidates op =
     (isa memref_store op \<and>
      (case (store_getMemRef op, store_getValue op) of
         (Some m, Some v) \<Rightarrow>
           contains_op candidates (getDefiningOp m) \<and>
           (case getDefiningOp v of
              None \<Rightarrow> False
            | Some d \<Rightarrow>
                (isa arith_addi d \<or> isa arith_subi d) \<and>
                list_ex (isLoadOf (getDefiningOp m)) (getOperands d))
       | _ \<Rightarrow> False))"

definition exactlyOneMatchingStore :: "ophead list \<Rightarrow> ophead list \<Rightarrow> bool" where
  "exactlyOneMatchingStore candidates stepOps =
     (length (filter (storeMatches candidates) stepOps) = 1)"

text \<open>The candidate cells of a loop: the comparison temporaries of its condition.\<close>

definition candidateCells :: "loopOp \<Rightarrow> ophead list option" where
  "candidateCells loop =
     do {
       whileBlock \<leftarrow> list_back (getWhileRegion loop);
       condition \<leftarrow> block_back whileBlock;
       cond \<leftarrow> getCondition condition;
       cmpOp \<leftarrow> getDefiningOp cond;
       populateComparisonTemps cmpOp whileBlock
     }"

definition stepOps :: "loopOp \<Rightarrow> ophead list option" where
  "stepOps loop = map_option (\<lambda>b. map head_of (block_ops b)) (list_back (getStepRegion loop))"

text \<open>The checks of \<^verbatim>\<open>hasMonotonicLCV\<close> that come before the count (lines 199-208).\<close>

definition passesLCVChecks :: "loopOp \<Rightarrow> bool" where
  "passesLCVChecks loop =
     (\<not> (getInitArgs loop \<noteq> [] \<and> loop_results loop \<noteq> []) \<and>
      (case list_back (getWhileRegion loop) of
         None \<Rightarrow> False
       | Some whileBlock \<Rightarrow>
           (case block_back whileBlock of
              None \<Rightarrow> False
            | Some condition \<Rightarrow>
                isa cc_condition condition \<and>
                (case getCondition condition of
                   None \<Rightarrow> False
                 | Some cond \<Rightarrow>
                     (case getDefiningOp cond of
                        None \<Rightarrow> False
                      | Some cmpOp \<Rightarrow> isa arith_cmpi cmpOp)))))"

definition bodyIsOneBlockWithContinue :: "loopOp \<Rightarrow> bool" where
  "bodyIsOneBlockWithContinue l =
     (case getBodyRegion l of
        [b] \<Rightarrow> (case getTerminator b of Some t \<Rightarrow> isa cc_continue (head_of t) | None \<Rightarrow> False)
      | _ \<Rightarrow> False)"

text \<open>How many operands of the value stored by a store are loads of the stored-to cell.\<close>

definition matchingLoads :: "ophead \<Rightarrow> nat" where
  "matchingLoads op =
     (case (store_getMemRef op, store_getValue op) of
        (Some m, Some v) \<Rightarrow>
          (case getDefiningOp v of
             None \<Rightarrow> 0
           | Some d \<Rightarrow> length (filter (isLoadOf (getDefiningOp m)) (getOperands d)))
      | _ \<Rightarrow> 0)"


section \<open>The loop reversal engine\<close>

subsection \<open>Building blocks\<close>














subsection \<open>Recovering the parts of the loop (lines 480-553)\<close>

record loopParts =
  inductionIsValue :: bool
  cmpOp :: ophead
  inductionVar :: "ophead option"
  stepOp :: ophead
  initialValue :: val
  terminalValue :: val
  stepValue :: val
  stepIsAnAddOp :: bool
  commuteTheAddOp :: bool






subsection \<open>Trip count and new initial value (lines 557-582)\<close>


definition isInclusive :: "predicate \<Rightarrow> bool" where
  "isInclusive p = (p = pred_ule \<or> p = pred_sle \<or> p = pred_uge \<or> p = pred_sge)"



subsection \<open>The three regions of the new loop (lines 602-672)\<close>





text \<open>
  \<^verbatim>\<open>replaceAllUsesWith\<close> and the replacement of an operation by a new one, inside a
  region: the operation with the old identity gives its place to the new operation, and
  every value that names a result of the old one names the same result of the new one.
\<close>

fun replaceUsesVal :: "nat \<Rightarrow> ophead \<Rightarrow> val \<Rightarrow> val"
  and replaceUsesHead :: "nat \<Rightarrow> ophead \<Rightarrow> ophead \<Rightarrow> ophead" where
  "replaceUsesVal old new (BlockArg a t) = BlockArg a t"
| "replaceUsesVal old new (OpResult h k) =
     (if op_id (info h) = old then OpResult new k
      else OpResult (replaceUsesHead old new h) k)"
| "replaceUsesHead old new (OpHead i vs) = OpHead i (map (replaceUsesVal old new) vs)"

fun replaceOp :: "nat \<Rightarrow> ophead \<Rightarrow> operation \<Rightarrow> operation"
  and replaceOpInBlock :: "nat \<Rightarrow> ophead \<Rightarrow> block \<Rightarrow> block" where
  "replaceOp old new (Operation h rs) =
     (if op_id (info h) = old then Operation new []
      else Operation (replaceUsesHead old new h) (map (map (replaceOpInBlock old new)) rs))"
| "replaceOpInBlock old new (Block i args ops) = Block i args (map (replaceOp old new) ops)"



subsection \<open>\<^verbatim>\<open>cloneReversedLoop\<close> (lines 471-673)\<close>



section \<open>The value of an integer expression\<close>


definition divsi :: "'a::len word \<Rightarrow> 'a word \<Rightarrow> 'a word option" where
  "divsi x y =
     (if y = 0 \<or> (x = - (2 ^ (LENGTH('a) - 1)) \<and> y = - 1) then None
      else Some (word_of_int (sint x sdiv sint y)))"


text \<open>
  The trip count and the new initial value as the specification gives them, from the
  bound \<open>B\<close>, the initial value \<open>I\<close>, the (signed) step \<open>S\<close> and the predicate.
\<close>

definition specIterations :: "predicate \<Rightarrow> 'a::len word \<Rightarrow> 'a word \<Rightarrow> 'a word \<Rightarrow> 'a word option" where
  "specIterations p B I S =
     (case divsi (if isInclusive p then (B - I) + S else B - I) S of
        None \<Rightarrow> None
      | Some q \<Rightarrow> Some (if 0 <s q then q else 0))"

definition specNewStart :: "'a::len word \<Rightarrow> 'a word \<Rightarrow> 'a word \<Rightarrow> 'a word" where
  "specNewStart I n S = I + (n - 1) * S"



section \<open>The variant synthesizer\<close>

text \<open>
  The traits of the operations and the queries of \<^verbatim>\<open>Characteristics.h\<close> are declared
  outside these sources; the synthesizer takes them as a parameter: which operation names
  carry the traits \<^verbatim>\<open>QuantumGate\<close> and \<^verbatim>\<open>Hermitian\<close> and implement
  \<^verbatim>\<open>OperatorInterface\<close>, and the answers of \<^verbatim>\<open>hasQuantum\<close>,
  \<^verbatim>\<open>hasCallOp\<close> and \<^verbatim>\<open>hasMeasureOp\<close>.
\<close>

record dialect =
  QuantumGate :: "opname \<Rightarrow> bool"
  Hermitian :: "opname \<Rightarrow> bool"
  OperatorInterface :: "opname \<Rightarrow> bool"
  hasQuantum :: "operation \<Rightarrow> bool"
  hasCallOp :: "funcOp \<Rightarrow> bool"
  hasMeasureOp :: "funcOp \<Rightarrow> bool"

text \<open>The state of the pass: the module, the diagnostics emitted so far, the failure
  signal, and the counter that new operations and block arguments take their identity
  from.\<close>

record pass =
  the_module :: moduleOp
  diagnostics :: "string list"
  pass_failed :: bool
  fresh :: nat

definition emitError :: "string \<Rightarrow> pass \<Rightarrow> pass" where
  "emitError msg st = st\<lparr>diagnostics := diagnostics st @ [msg]\<rparr>"

definition signalPassFailure :: "pass \<Rightarrow> pass" where
  "signalPassFailure st = st\<lparr>pass_failed := True\<rparr>"

definition segmentSizes :: string where
  "segmentSizes = ''operand_segment_sizes''"

text \<open>\<^verbatim>\<open>NamedAttrList::set\<close>, \<^verbatim>\<open>Operation::setAttr\<close> and
  \<^verbatim>\<open>Operation::removeAttr\<close> on the attribute dictionary.\<close>

definition setAttr :: "string \<Rightarrow> attr \<Rightarrow> (string \<times> attr) list \<Rightarrow> (string \<times> attr) list" where
  "setAttr k v attrs =
     (if k \<in> fst ` set attrs then map (\<lambda>(k', v'). if k' = k then (k', v) else (k', v')) attrs
      else attrs @ [(k, v)])"

definition removeAttr :: "string \<Rightarrow> (string \<times> attr) list \<Rightarrow> (string \<times> attr) list" where
  "removeAttr k attrs = filter (\<lambda>(k', v'). k' \<noteq> k) attrs"

text \<open>
  Modelled from the spec: \<^verbatim>\<open>cudaq::opt::factory::createFunction\<close> is not among the
  sources; by the specification a synthesized variant is a newly inserted symbol of the
  module. The new kernel has the given name and type and, so far, no body.
\<close>

definition createFunction :: "string \<Rightarrow> ty list \<Rightarrow> ty list \<Rightarrow> funcOp" where
  "createFunction name resultTys inputTys =
     \<lparr>sym_name = name, fn_inputs = inputTys, fn_results = resultTys, fn_body = [],
        is_private = False\<rparr>"

definition addToModule :: "funcOp \<Rightarrow> pass \<Rightarrow> pass" where
  "addToModule f st = st\<lparr>the_module := the_module st @ [f]\<rparr>"

subsection \<open>The control variant (lines 354-391)\<close>

text \<open>
  The callback of the walk (lines 370-388) on an operation with the trait: a new
  operation with the control put in front of the second operand segment, built without
  regions, takes the place of the old one.
\<close>

definition addControlOperand :: "val \<Rightarrow> operation \<Rightarrow> nat \<Rightarrow> (operation \<times> nat) option" where
  "addControlOperand newCond op n =
     (case getAttr (head_of op) segmentSizes of
        Some (DenseI32ArrayAttr (a0 # a1 # a2 # rest)) \<Rightarrow>
          if a0 < 0 \<or> length (getOperands (head_of op)) < nat a0 then None
          else
            let operands = take (nat a0) (getOperands (head_of op)) @ [newCond]
                             @ drop (nat a0) (getOperands (head_of op));
                attrs = setAttr segmentSizes (DenseI32ArrayAttr [a0, a1 + 1, a2])
                          (op_attrs (info (head_of op)))
            in Some (Operation
                       (OpHead \<lparr>op_id = n, op_name = op_name (info (head_of op)), op_attrs = attrs,
                                op_block = op_block (info (head_of op)),
                                op_result_types = op_result_types (info (head_of op))\<rparr> operands)
                       [],
                     Suc n)
      | _ \<Rightarrow> None)"

text \<open>\<^verbatim>\<open>newFunc.walk\<close>: every operation nested in the kernel, the nested ones first.\<close>

fun walkAddControl :: "dialect \<Rightarrow> val \<Rightarrow> operation \<Rightarrow> nat \<Rightarrow> (operation \<times> nat) option"
  and walkAddControlRegions :: "dialect \<Rightarrow> val \<Rightarrow> region list \<Rightarrow> nat \<Rightarrow> (region list \<times> nat) option"
  and walkAddControlRegion :: "dialect \<Rightarrow> val \<Rightarrow> block list \<Rightarrow> nat \<Rightarrow> (block list \<times> nat) option"
  and walkAddControlBlock :: "dialect \<Rightarrow> val \<Rightarrow> block \<Rightarrow> nat \<Rightarrow> (block \<times> nat) option"
  and walkAddControlOps :: "dialect \<Rightarrow> val \<Rightarrow> operation list \<Rightarrow> nat \<Rightarrow> (operation list \<times> nat) option"
  where
  "walkAddControl D c (Operation h rs) n =
     (case walkAddControlRegions D c rs n of
        None \<Rightarrow> None
      | Some (rs', n') \<Rightarrow>
          if QuantumGate D (op_name (info h)) then addControlOperand c (Operation h rs') n'
          else Some (Operation h rs', n'))"
| "walkAddControlRegions D c [] n = Some ([], n)"
| "walkAddControlRegions D c (r # rs) n =
     (case walkAddControlRegion D c r n of
        None \<Rightarrow> None
      | Some (r', n') \<Rightarrow>
          (case walkAddControlRegions D c rs n' of
             None \<Rightarrow> None
           | Some (rs', n'') \<Rightarrow> Some (r' # rs', n'')))"
| "walkAddControlRegion D c [] n = Some ([], n)"
| "walkAddControlRegion D c (b # bs) n =
     (case walkAddControlBlock D c b n of
        None \<Rightarrow> None
      | Some (b', n') \<Rightarrow>
          (case walkAddControlRegion D c bs n' of
             None \<Rightarrow> None
           | Some (bs', n'') \<Rightarrow> Some (b' # bs', n'')))"
| "walkAddControlBlock D c (Block i args ops) n =
     (case walkAddControlOps D c ops n of
        None \<Rightarrow> None
      | Some (ops', n') \<Rightarrow> Some (Block i args ops', n'))"
| "walkAddControlOps D c [] n = Some ([], n)"
| "walkAddControlOps D c (op # ops) n =
     (case walkAddControl D c op n of
        None \<Rightarrow> None
      | Some (op', n') \<Rightarrow>
          (case walkAddControlOps D c ops n' of
             None \<Rightarrow> None
           | Some (ops', n'') \<Rightarrow> Some (op' # ops', n'')))"

text \<open>\<^verbatim>\<open>Block::insertArgument(0, ...)\<close>: a new argument in front of the others.\<close>

definition insertArgument0 :: "ty \<Rightarrow> block \<Rightarrow> nat \<Rightarrow> block" where
  "insertArgument0 t blk n = Block (block_id blk) ((n, t) # getArguments blk) (block_ops blk)"

definition createControlVariantOf :: "dialect \<Rightarrow> funcOp \<Rightarrow> pass \<Rightarrow> (funcOp \<times> pass) option" where
  "createControlVariantOf D funcOp st =
     (let funcName = getCtrlVariantFunctionName (sym_name funcOp);
          qvecTy = QVecType None;
          inTys = qvecTy # fn_inputs funcOp;
          newFunc = (createFunction funcName (fn_results funcOp) inTys)\<lparr>is_private := True\<rparr>
      in case fn_body funcOp of
           [] \<Rightarrow> None
         | entry # rest \<Rightarrow>
             let newCond = BlockArg (fresh st) qvecTy;
                 body = insertArgument0 qvecTy entry (fresh st) # rest
             in (case walkAddControlRegion D newCond body (Suc (fresh st)) of
                   None \<Rightarrow> None
                 | Some (body', n) \<Rightarrow>
                     let newFunc = newFunc\<lparr>fn_body := body'\<rparr>
                     in Some (newFunc, addToModule newFunc (st\<lparr>fresh := n\<rparr>))))"

text \<open>
  The control variant as the specification words it: on every operation with the
  primitive-gate trait the new control is inserted where the control segment begins, the
  recorded size of the control segment grows by one, and nothing else changes; all other
  operations are kept, with their regions treated the same way.
\<close>

definition withControl :: "val \<Rightarrow> ophead \<Rightarrow> ophead" where
  "withControl c h =
     (case getAttr h segmentSizes of
        Some (DenseI32ArrayAttr (params # controls # targets # rest)) \<Rightarrow>
          OpHead ((info h)\<lparr>op_attrs :=
                     setAttr segmentSizes (DenseI32ArrayAttr [params, controls + 1, targets])
                       (op_attrs (info h))\<rparr>)
            (take (nat params) (getOperands h) @ [c] @ drop (nat params) (getOperands h))
      | _ \<Rightarrow> h)"

fun specControlVariant :: "dialect \<Rightarrow> val \<Rightarrow> operation \<Rightarrow> operation"
  and specControlVariantBlock :: "dialect \<Rightarrow> val \<Rightarrow> block \<Rightarrow> block" where
  "specControlVariant D c (Operation h rs) =
     (if QuantumGate D (op_name (info h)) then Operation (withControl c h) []
      else Operation h (map (map (specControlVariantBlock D c)) rs))"
| "specControlVariantBlock D c (Block i args ops) =
     Block i args (map (specControlVariant D c) ops)"

text \<open>Two operations are compared up to the identity of the operation objects.\<close>

fun forgetId :: "operation \<Rightarrow> operation"
  and forgetIdBlock :: "block \<Rightarrow> block" where
  "forgetId (Operation h rs) =
     Operation (OpHead ((info h)\<lparr>op_id := 0\<rparr>) (getOperands h)) (map (map forgetIdBlock) rs)"
| "forgetIdBlock (Block i args ops) = Block i args (map forgetId ops)"

text \<open>A kernel with two gates, the second inside an if-construct.\<close>

definition gate_op :: "nat \<Rightarrow> string \<Rightarrow> nat \<Rightarrow> (string \<times> attr) list \<Rightarrow> int list \<Rightarrow> val list \<Rightarrow> operation" where
  "gate_op i g blk attrs sizes operands =
     Operation (mk_op i (quake_gate g) ((segmentSizes, DenseI32ArrayAttr sizes) # attrs) blk []
                  operands) []"

definition quake_dialect :: dialect where
  "quake_dialect =
     \<lparr>QuantumGate = (\<lambda>n. case n of quake_gate g \<Rightarrow> True | _ \<Rightarrow> False),
        Hermitian = (\<lambda>n. n \<in> {quake_gate ''h'', quake_gate ''x'', quake_gate ''y'',
                                quake_gate ''z''}),
        OperatorInterface = (\<lambda>n. case n of quake_gate g \<Rightarrow> True | _ \<Rightarrow> False),
        hasQuantum = (\<lambda>op. case op_name (info (head_of op)) of quake_gate g \<Rightarrow> True | _ \<Rightarrow> False),
        hasCallOp = (\<lambda>f. False),
        hasMeasureOp = (\<lambda>f. False)\<rparr>"

definition pass0 :: "moduleOp \<Rightarrow> pass" where
  "pass0 m = \<lparr>the_module = m, diagnostics = [], pass_failed = False, fresh = 1000\<rparr>"

definition kernel_rx :: funcOp where
  "kernel_rx =
     \<lparr>sym_name = ''k'', fn_inputs = [QVecType None, FloatType], fn_results = [],
        fn_body =
          [Block 1 [(100, QVecType None), (101, FloatType)]
             [gate_op 1 ''rx'' 1 [] [1, 0, 1] [BlockArg 101 FloatType, BlockArg 100 (QVecType None)],
              Operation (mk_op 2 cc_if [] 1 [] [])
                [[Block 2 []
                    [gate_op 3 ''h'' 2 [] [0, 0, 1] [BlockArg 100 (QVecType None)],
                     Operation (mk_op 4 cc_continue [] 2 [] []) []]],
                 []],
              Operation (mk_op 5 func_return [] 1 [] []) []]],
        is_private = False\<rparr>"

(*DEFS-END*)

section \<open>The variant-requirement analysis\<close>

text \<open>
  An entry of the map, once inserted, is never changed by a later apply site: the callback
  copies the entry, sets a flag in the copy and calls \<^verbatim>\<open>insert\<close>, which does not
  overwrite.
\<close>

lemma fold_analyseApply_keeps:
  "m k = Some v \<Longrightarrow> fold (analyseApply u p md) sites m k = Some v"
proof (induction sites arbitrary: m)
  case Nil
  then show ?case by simp
next
  case (Cons s sites)
  have "analyseApply u p md s m k = Some v"
    using Cons.prems
    by (auto simp: analyseApply_def DenseMap_insert_def Let_def split: option.splits)
  then show ?case using Cons.IH by simp
qed

text \<open>
  C10. The analysis is run on a module with one kernel \<open>k\<close> and two apply sites that
  target it: the first adjoint without controls, the second with one control and not
  adjoint. The local \<^verbatim>\<open>variant\<close> is taken with all three flags clear. The entry
  recorded for \<open>k\<close> has the adjoint flag only: the controlled site leaves needs-control
  clear.
\<close>

theorem performAnalysis_later_site_lost:
  "performAnalysis
     \<lparr>needsControlVariant = False, needsAdjointVariant = False,
        needsAdjointControlVariant = False\<rparr>
     (\<lambda>a. getIsAdj a \<or> getControls a \<noteq> [])
     [\<lparr>sym_name = ''k'', fn_inputs = [], fn_results = [], fn_body = [], is_private = False\<rparr>]
     [\<lparr>getCallee = ''k'', getIsAdj = True, getControls = [], getArgs = [],
         getResultTypes = []\<rparr>,
      \<lparr>getCallee = ''k'', getIsAdj = False, getControls = [BlockArg 0 (QVecType None)],
         getArgs = [], getResultTypes = []\<rparr>]
     (Some ''k'')
   = Some \<lparr>needsControlVariant = False, needsAdjointVariant = True,
           needsAdjointControlVariant = False\<rparr>"
  by (simp add: performAnalysis_def analyseApply_def DenseMap_insert_def lookupSymbol_def)

section \<open>The call-site rewriter\<close>



lemma matchAndRewrite_example:
  "map (\<lambda>op. (op_name (info (head_of op)), op_attrs (info (head_of op)),
               getOperands (head_of op)))
     (inserted (matchAndRewrite
        \<lparr>getCallee = ''k'', getIsAdj = True,
           getControls = [BlockArg 0 QRefType, BlockArg 1 QRefType],
           getArgs = [BlockArg 2 (QVecType None)], getResultTypes = []\<rparr>
        \<lparr>next_id = 7, ins_block = 0, inserted = []\<rparr>))
   = [(quake_concat, [], [BlockArg 0 QRefType, BlockArg 1 QRefType]),
      (func_call, [(''callee'', SymbolRefAttr ''k.adj.ctrl'')],
       [OpResult (OpHead \<lparr>op_id = 7, op_name = quake_concat, op_attrs = [], op_block = 0,
                   op_result_types = [QVecType None]\<rparr>
                   [BlockArg 0 QRefType, BlockArg 1 QRefType]) 0,
        BlockArg 2 (QVecType None)])]"
  by (simp add: matchAndRewrite_def create_def createAt_def Let_def getVariantFunctionName_def
      getAdjCtrlVariantFunctionName_def)

section \<open>The counted-loop recognizer\<close>

lemma PHI_guard:
  "getInitArgs l = [] \<or> loop_results l = [] \<Longrightarrow> hasMonotonicPHIControl l = Some False"
  by (simp add: hasMonotonicPHIControl_def)

lemma LCV_guard:
  "getInitArgs l \<noteq> [] \<Longrightarrow> loop_results l \<noteq> [] \<Longrightarrow> hasMonotonicLCV l = Some False"
  by (simp add: hasMonotonicLCV_def)

text \<open>
  The first test of each matcher is the negation of the first test of the other, so a
  loop that the value-domain matcher accepts was rejected by the memory-domain matcher.
\<close>

lemma PHI_True_LCV_False:
  "hasMonotonicPHIControl l = Some True \<Longrightarrow> hasMonotonicLCV l = Some False"
  using PHI_guard [of l] LCV_guard [of l] by fastforce

lemma control_induction_True:
  "hasMonotonicControlInduction l = Some True \<longleftrightarrow>
     hasMonotonicLCV l = Some True \<or> hasMonotonicPHIControl l = Some True"
  using PHI_True_LCV_False [of l]
  by (cases "hasMonotonicLCV l") (auto simp: hasMonotonicControlInduction_def)

lemma control_induction_False:
  "hasMonotonicControlInduction l = Some False \<longleftrightarrow>
     hasMonotonicLCV l = Some False \<and> hasMonotonicPHIControl l = Some False"
  by (cases "hasMonotonicLCV l") (auto simp: hasMonotonicControlInduction_def)

lemma isaCountedLoop_not_a_loop:
  "dyn_cast_LoopOp op = None \<Longrightarrow> isaCountedLoop op = Some False"
  by (simp add: isaCountedLoop_def)

text \<open>
  C9. For a loop operation \<open>l\<close>: the recognizer answers false when the loop is
  post-conditional or has no step region; it answers true only when the body region is
  one block whose terminator is a continue; when these tests pass its answer is that of
  \<open>hasMonotonicControlInduction\<close>, which is true exactly when one of the two matchers is
  true and false exactly when both are false; and the two matchers are never both true.
\<close>

theorem isaCountedLoop_recognizer:
  assumes "dyn_cast_LoopOp op = Some l"
  shows "(isPostConditional l \<or> \<not> hasStep l \<longrightarrow> isaCountedLoop op = Some False) \<and>
    (isaCountedLoop op = Some True \<longrightarrow> bodyIsOneBlockWithContinue l) \<and>
    (\<not> isPostConditional l \<and> hasStep l \<and> bodyIsOneBlockWithContinue l \<longrightarrow>
       isaCountedLoop op = hasMonotonicControlInduction l) \<and>
    (hasMonotonicControlInduction l = Some True \<longleftrightarrow>
       hasMonotonicLCV l = Some True \<or> hasMonotonicPHIControl l = Some True) \<and>
    (hasMonotonicControlInduction l = Some False \<longleftrightarrow>
       hasMonotonicLCV l = Some False \<and> hasMonotonicPHIControl l = Some False) \<and>
    \<not> (hasMonotonicLCV l = Some True \<and> hasMonotonicPHIControl l = Some True)"
proof (intro conjI)
  show "isPostConditional l \<or> \<not> hasStep l \<longrightarrow> isaCountedLoop op = Some False"
    using assms by (auto simp: isaCountedLoop_def)
  show "isaCountedLoop op = Some True \<longrightarrow> bodyIsOneBlockWithContinue l"
    using assms
    by (auto simp: isaCountedLoop_def bodyIsOneBlockWithContinue_def Let_def list_front_def
        split: if_splits list.splits option.splits bind_splits)
  show "\<not> isPostConditional l \<and> hasStep l \<and> bodyIsOneBlockWithContinue l \<longrightarrow>
       isaCountedLoop op = hasMonotonicControlInduction l"
    using assms
    by (auto simp: isaCountedLoop_def bodyIsOneBlockWithContinue_def Let_def list_front_def
        split: if_splits list.splits option.splits)
  show "hasMonotonicControlInduction l = Some True \<longleftrightarrow>
       hasMonotonicLCV l = Some True \<or> hasMonotonicPHIControl l = Some True"
    by (rule control_induction_True)
  show "hasMonotonicControlInduction l = Some False \<longleftrightarrow>
       hasMonotonicLCV l = Some False \<and> hasMonotonicPHIControl l = Some False"
    by (rule control_induction_False)
  show "\<not> (hasMonotonicLCV l = Some True \<and> hasMonotonicPHIControl l = Some True)"
    using PHI_True_LCV_False [of l] by auto
qed

theorem isaCountedLoop_recognizer_witness:
  "dyn_cast_LoopOp phi_loop = Some phi_loopOp \<and>
   isaCountedLoop phi_loop = hasMonotonicControlInduction phi_loopOp \<and>
   hasMonotonicPHIControl phi_loopOp = Some True \<and>
   hasMonotonicLCV phi_loopOp = Some False \<and>
   isaCountedLoop phi_loop = Some True"
proof -
  have h: "dyn_cast_LoopOp phi_loop = Some phi_loopOp"
    by code_simp
  have pre: "\<not> isPostConditional phi_loopOp \<and> hasStep phi_loopOp \<and>
      bodyIsOneBlockWithContinue phi_loopOp"
    by code_simp
  have phi: "hasMonotonicPHIControl phi_loopOp = Some True"
    by code_simp
  have lcv: "hasMonotonicLCV phi_loopOp = Some False"
    by code_simp
  from isaCountedLoop_recognizer [OF h] pre phi lcv h show ?thesis
    by auto
qed

section \<open>The structured-control-flow classifier\<close>







lemma unknown_two_region_operation_unstructured:
  "regionHasUnstructuredControlFlow
     [Block 0 [] [Operation (mk_op 1 (other_op ''scf.while'') [] 0 [] []) [[], []]]] = Some True"
  by code_simp

section \<open>The memory-domain matcher\<close>

lemma countLoads_length:
  "countLoads c vs = Some k \<Longrightarrow> k = length (filter (isLoadOf c) vs)"
proof (induction vs arbitrary: k)
  case Nil
  then show ?case by simp
next
  case (Cons v vs)
  then show ?case
    by (auto simp: isLoadOf_def split: bind_splits if_splits option.splits)
qed

lemma storeMatchCount_value:
  "storeMatchCount temps op = Some k \<Longrightarrow>
     k = (if storeMatches temps op then matchingLoads op else 0)"
  by (auto simp: storeMatchCount_def storeMatches_def matchingLoads_def list_ex_iff
      filter_empty_conv dest!: countLoads_length split: bind_splits if_splits option.splits)

lemma matchCount_sum:
  "matchCount temps ops = Some n \<Longrightarrow>
     n = sum_list (map matchingLoads (filter (storeMatches temps) ops))"
proof (induction ops arbitrary: n)
  case Nil
  then show ?case by simp
next
  case (Cons op ops)
  then show ?case
    by (auto dest!: storeMatchCount_value split: bind_splits)
qed

lemma sum_positive_is_one:
  fixes f :: "'a \<Rightarrow> nat"
  assumes "\<forall>x\<in>set xs. 0 < f x"
  shows "sum_list (map f xs) = 1 \<longleftrightarrow> (\<exists>s. xs = [s] \<and> f s = 1)"
proof (cases xs)
  case Nil
  then show ?thesis by simp
next
  case (Cons a as)
  show ?thesis
  proof (cases as)
    case Nil
    with Cons show ?thesis by simp
  next
    case (Cons b bs)
    with \<open>xs = a # as\<close> assms have "0 < f a" "0 < f b" by simp_all
    with Cons \<open>xs = a # as\<close> show ?thesis by simp
  qed
qed

lemma storeMatches_positive:
  "\<forall>s\<in>set (filter (storeMatches temps) ops). 0 < matchingLoads s"
  by (auto simp: storeMatches_def matchingLoads_def list_ex_iff filter_empty_conv
        split: option.splits)

text \<open>
  The counter ends at one exactly when one store matches and the add or subtract it
  stores has one operand, not two, that loads the cell.
\<close>

lemma matchCount_rev_one:
  assumes "matchCount temps (rev ops) = Some n"
  shows "n = 1 \<longleftrightarrow> (\<exists>s. filter (storeMatches temps) ops = [s] \<and> matchingLoads s = 1)"
proof -
  have "n = sum_list (map matchingLoads (filter (storeMatches temps) ops))"
    using matchCount_sum [OF assms] by (simp add: rev_filter [symmetric] rev_map [symmetric])
  then show ?thesis
    using sum_positive_is_one [OF storeMatches_positive, of temps ops] by simp
qed

lemma hasMonotonicLCV_fails_checks:
  "\<not> passesLCVChecks l \<Longrightarrow> hasMonotonicLCV l = Some r \<Longrightarrow> r = False"
  by (auto simp: passesLCVChecks_def hasMonotonicLCV_def
      split: if_splits bind_splits option.splits)

lemma hasMonotonicLCV_count:
  "passesLCVChecks l \<Longrightarrow> hasMonotonicLCV l = Some r \<Longrightarrow>
     \<exists>temps ops n. candidateCells l = Some temps \<and> stepOps l = Some ops \<and>
        matchCount temps (rev ops) = Some n \<and> r = (n = 1)"
  by (auto simp: passesLCVChecks_def hasMonotonicLCV_def candidateCells_def stepOps_def rev_map
      split: if_splits bind_splits option.splits)

text \<open>
  C5, as stated, fails on \<open>for (i = 0; i < 10; i += i)\<close> in the memory domain: the step
  block has exactly one store that targets the candidate cell and stores an add with a
  load of that cell among its operands, and the matcher rejects the loop, because both
  operands of the add are such loads and the counter reaches two.
\<close>

theorem hasMonotonicLCV_rejects_single_matching_store:
  "hasMonotonicLCV (lcv_loopOp_with (OpResult (load_cell 13 12) 0)) = Some False \<and>
   candidateCells (lcv_loopOp_with (OpResult (load_cell 13 12) 0)) = Some [ivar_cell] \<and>
   map_option (exactlyOneMatchingStore [ivar_cell])
     (stepOps (lcv_loopOp_with (OpResult (load_cell 13 12) 0))) = Some True"
  by code_simp

text \<open>
  C5, amended. Whenever the memory-domain matcher returns, it accepts exactly when the
  loop passes the checks that come first (it does not have both initial arguments and
  results, and its while block ends in a condition fed by an integer comparison) and,
  among the operations of the step block, exactly one is a store that targets a candidate
  cell and stores an integer add or subtract with a load of that cell among its operands,
  and exactly one operand of that add or subtract is such a load.
\<close>

theorem hasMonotonicLCV_accepts_iff:
  assumes "hasMonotonicLCV l = Some r"
  shows "r = True \<longleftrightarrow>
     passesLCVChecks l \<and>
     (\<exists>temps ops s. candidateCells l = Some temps \<and> stepOps l = Some ops \<and>
        filter (storeMatches temps) ops = [s] \<and> matchingLoads s = 1)"
proof (cases "passesLCVChecks l")
  case False
  with hasMonotonicLCV_fails_checks [OF False assms] show ?thesis by simp
next
  case True
  from hasMonotonicLCV_count [OF True assms] obtain temps ops n where
    c: "candidateCells l = Some temps" and s: "stepOps l = Some ops" and
    m: "matchCount temps (rev ops) = Some n" and r: "r = (n = 1)"
    by blast
  show ?thesis
    using True c s r matchCount_rev_one [OF m] by auto
qed

theorem hasMonotonicLCV_accepts_iff_witness:
  "hasMonotonicLCV (lcv_loopOp_with (OpResult (const_op 3 0 1) 0)) = Some True \<and>
   passesLCVChecks (lcv_loopOp_with (OpResult (const_op 3 0 1) 0)) \<and>
   (\<exists>temps ops s. candidateCells (lcv_loopOp_with (OpResult (const_op 3 0 1) 0)) = Some temps \<and>
      stepOps (lcv_loopOp_with (OpResult (const_op 3 0 1) 0)) = Some ops \<and>
      filter (storeMatches temps) ops = [s] \<and> matchingLoads s = 1)"
proof -
  have h: "hasMonotonicLCV (lcv_loopOp_with (OpResult (const_op 3 0 1) 0)) = Some True"
    by code_simp
  from hasMonotonicLCV_accepts_iff [OF h] h show ?thesis
    by simp
qed

section \<open>The loop reversal engine\<close>



























text \<open>The second example of the specification: from 0 to 10 inclusive by 2.\<close>

lemma specIterations_inclusive_example:
  "specIterations pred_sle (10 :: 64 word) 0 2 = Some 6 \<and> specNewStart (0 :: 64 word) 6 2 = 10"
  by (simp add: specIterations_def divsi_def isInclusive_def signed_divide_int_def
      word_sless_alt specNewStart_def)






section \<open>The control variant\<close>

text \<open>The walk computes, up to the identities of the rebuilt operations, what the
  specification describes.\<close>

lemma addControlOperand_spec:
  "addControlOperand c (Operation h rs) n = Some (op', n') \<Longrightarrow>
     forgetId op' = forgetId (Operation (withControl c h) [])"
  by (auto simp: addControlOperand_def withControl_def Let_def
      split: option.splits attr.splits list.splits if_splits)

lemma walkAddControl_spec:
  "walkAddControl D c op n = Some (op', n') \<Longrightarrow> forgetId op' = forgetId (specControlVariant D c op)"
  "walkAddControlRegions D c rs n = Some (rs', n') \<Longrightarrow>
     map (map forgetIdBlock) rs' = map (map (forgetIdBlock \<circ> specControlVariantBlock D c)) rs"
  "walkAddControlRegion D c bs n = Some (bs', n') \<Longrightarrow>
     map forgetIdBlock bs' = map (forgetIdBlock \<circ> specControlVariantBlock D c) bs"
  "walkAddControlBlock D c b n = Some (b', n') \<Longrightarrow>
     forgetIdBlock b' = forgetIdBlock (specControlVariantBlock D c b)"
  "walkAddControlOps D c ops n = Some (ops', n') \<Longrightarrow>
     map forgetId ops' = map (forgetId \<circ> specControlVariant D c) ops"
proof (induction D c op n and D c rs n and D c bs n and D c b n and D c ops n
    arbitrary: op' n' and rs' n' and bs' n' and b' n' and ops' n'
    rule: walkAddControl_walkAddControlRegions_walkAddControlRegion_walkAddControlBlock_walkAddControlOps.induct)
  case (1 D c h rs n)
  from "1.prems" obtain rs1 n1 where
    w: "walkAddControlRegions D c rs n = Some (rs1, n1)"
    by (auto split: option.splits)
  show ?case
  proof (cases "QuantumGate D (op_name (info h))")
    case True
    with "1.prems" w have "addControlOperand c (Operation h rs1) n1 = Some (op', n')"
      by simp
    from addControlOperand_spec [OF this] True show ?thesis
      by simp
  next
    case False
    with "1.prems" w have "op' = Operation h rs1"
      by simp
    with "1.IH" [OF w] False show ?thesis
      by simp
  qed
next
  case (2 D c n)
  then show ?case by simp
next
  case (3 D c r rs n)
  then show ?case
    by (auto split: option.splits)
next
  case (4 D c n)
  then show ?case by simp
next
  case (5 D c b bs n)
  then show ?case
    by (auto split: option.splits)
next
  case (6 D c i args ops n)
  then show ?case
    by (auto split: option.splits)
next
  case (7 D c n)
  then show ?case by simp
next
  case (8 D c op ops n)
  then show ?case
    by (auto split: option.splits)
qed

(*THMS-END*)

end
